theory Spec2Isabelle
  imports Complex_Main "HOL-Library.Multiset" "HOL-Library.Sublist"
begin

section \<open>The hybrid scorer of \<^verbatim>\<open>hybrid_model.py\<close>\<close>

text \<open>
  The class \<^verbatim>\<open>HybridRecommendationSystem_Custom\<close> blends the scores of two optional
  collaborators, a collaborative-filtering model and a content-based model, and ranks a
  list of candidate items. The collaborators are objects defined outside the repository;
  the class only calls their \<^verbatim>\<open>predict\<close> method. They are therefore parameters of the model.

  \<^item> A score is a Python float; it is modelled as a \<open>real\<close>, so rounding, infinities and
    NaN are outside the model.
  \<^item> A call of a collaborator either returns or raises. What it raises is an instance of
    Python's \<^verbatim>\<open>Exception\<close>, the class named by the handler in \<^verbatim>\<open>recommend\<close>; the
    interpreter's exit signals (\<^verbatim>\<open>KeyboardInterrupt\<close>, \<^verbatim>\<open>SystemExit\<close>) are not modelled.
  \<^item> A collaborator may keep state of its own (caches, fitted parameters). That state is
    the component \<open>env\<close> of the program state, of an arbitrary type \<open>'w\<close>; a call reads it
    and returns it, possibly changed.
\<close>

subsection \<open>Data\<close>

datatype error = PredictionError | OtherException string

text \<open>
  The collaborative-filtering model returns a prediction object of which only the
  attribute \<^verbatim>\<open>est\<close> is read.
\<close>

record prediction =
  est :: real

type_synonym ('u, 'i, 'r, 'w) predictor = "'u \<Rightarrow> 'i \<Rightarrow> 'w \<Rightarrow> (error + 'r) \<times> 'w"

text \<open>
  The program state: the three attributes set by \<^verbatim>\<open>__init__\<close> (a collaborator that is
  \<^verbatim>\<open>None\<close> is \<open>None\<close>; the attribute otherwise holds the reference through which
  \<^verbatim>\<open>predict\<close> is called), and the state behind the collaborators.
\<close>

record ('u, 'i, 'w) hybrid =
  cf_model :: "('u, 'i, prediction, 'w) predictor option"
  cb_model :: "('u, 'i, real, 'w) predictor option"
  weights :: "real \<times> real"
  env :: 'w

subsection \<open>\<^verbatim>\<open>predict\<close>\<close>

text \<open>
  \<^verbatim>\<open>if self.cf_model: score_cf = self.cf_model.predict(user_id, item_id).est\<close>,
  with \<open>score_cf\<close> initialised to 0. The result carries the state after the call.
\<close>

definition call_cf ::
  "('u, 'i, 'w) hybrid \<Rightarrow> 'u \<Rightarrow> 'i \<Rightarrow> (error + real) \<times> ('u, 'i, 'w) hybrid" where
  "call_cf self user_id item_id =
     (case cf_model self of
        None \<Rightarrow> (Inr 0, self)
      | Some m \<Rightarrow>
          (case m user_id item_id (env self) of
             (Inl e, w) \<Rightarrow> (Inl e, self\<lparr>env := w\<rparr>)
           | (Inr p, w) \<Rightarrow> (Inr (est p), self\<lparr>env := w\<rparr>)))"

text \<open>
  \<^verbatim>\<open>if self.cb_model: score_cb = self.cb_model.predict(user_id, item_id)\<close>,
  with \<open>score_cb\<close> initialised to 0.
\<close>

definition call_cb ::
  "('u, 'i, 'w) hybrid \<Rightarrow> 'u \<Rightarrow> 'i \<Rightarrow> (error + real) \<times> ('u, 'i, 'w) hybrid" where
  "call_cb self user_id item_id =
     (case cb_model self of
        None \<Rightarrow> (Inr 0, self)
      | Some m \<Rightarrow>
          (case m user_id item_id (env self) of
             (Inl e, w) \<Rightarrow> (Inl e, self\<lparr>env := w\<rparr>)
           | (Inr s, w) \<Rightarrow> (Inr s, self\<lparr>env := w\<rparr>)))"

text \<open>
  The two calls in the order of the source; an exception of the first call leaves the
  method before the second collaborator is called. The weights are read last.
\<close>

definition predict ::
  "('u, 'i, 'w) hybrid \<Rightarrow> 'u \<Rightarrow> 'i \<Rightarrow> (error + real) \<times> ('u, 'i, 'w) hybrid" where
  "predict self user_id item_id =
     (case call_cf self user_id item_id of
        (Inl e, s1) \<Rightarrow> (Inl e, s1)
      | (Inr score_cf, s1) \<Rightarrow>
          (case call_cb s1 user_id item_id of
             (Inl e, s2) \<Rightarrow> (Inl e, s2)
           | (Inr score_cb, s2) \<Rightarrow>
               (Inr (fst (weights s2) * score_cf + snd (weights s2) * score_cb), s2)))"

subsection \<open>\<^verbatim>\<open>recommend\<close>\<close>

text \<open>
  The loop over the candidates, with the list \<^verbatim>\<open>scored_items\<close> as an accumulator:
  a score is appended, an exception is caught and the loop goes on.
\<close>

fun score_items ::
  "('u, 'i, 'w) hybrid \<Rightarrow> 'u \<Rightarrow> 'i list \<Rightarrow> ('i \<times> real) list
     \<Rightarrow> ('i \<times> real) list \<times> ('u, 'i, 'w) hybrid" where
  "score_items self user_id [] scored_items = (scored_items, self)"
| "score_items self user_id (item_id # items) scored_items =
     (case predict self user_id item_id of
        (Inr score, s) \<Rightarrow> score_items s user_id items (scored_items @ [(item_id, score)])
      | (Inl e, s) \<Rightarrow> score_items s user_id items scored_items)"

text \<open>
  Python's \<^verbatim>\<open>sorted(xs, key=k, reverse=r)\<close> is a stable sort by key. With
  \<^verbatim>\<open>reverse=True\<close> the list is reversed, sorted upwards and reversed again, which keeps
  elements of equal key in their order of arrival.
\<close>

definition sorted_py :: "('a \<Rightarrow> 'k::linorder) \<Rightarrow> bool \<Rightarrow> 'a list \<Rightarrow> 'a list" where
  "sorted_py key reverse xs =
     (if reverse then rev (sort_key key (rev xs)) else sort_key key xs)"

text \<open>
  The slice \<^verbatim>\<open>xs[:n]\<close>: a negative bound counts from the end, and a bound beyond either
  end is clipped.
\<close>

definition slice_to :: "int \<Rightarrow> 'a list \<Rightarrow> 'a list" where
  "slice_to n xs =
     (if 0 \<le> n then take (nat n) xs else take (nat (int (length xs) + n)) xs)"

definition recommend ::
  "('u, 'i, 'w) hybrid \<Rightarrow> 'u \<Rightarrow> 'i list \<Rightarrow> int
     \<Rightarrow> ('i \<times> real) list \<times> ('u, 'i, 'w) hybrid" where
  "recommend self user_id items top_n =
     (case score_items self user_id items [] of
        (scored_items, s) \<Rightarrow> (slice_to top_n (sorted_py snd True scored_items), s))"

subsection \<open>Example configurations\<close>

text \<open>
  Collaborators without state of their own, over items and users numbered by naturals:
  a collaborative-filtering model that has no prediction for item 7, and a content-based
  model that scores every item by a fixed rule.
\<close>

definition example_cf :: "(nat, nat, prediction, unit) predictor" where
  "example_cf user_id item_id w =
     (if item_id = 7 then (Inl PredictionError, w)
      else if item_id = 2 then (Inr \<lparr>est = 9 / 10\<rparr>, w)
      else (Inr \<lparr>est = 4 / 10\<rparr>, w))"

definition example_cb :: "(nat, nat, real, unit) predictor" where
  "example_cb user_id item_id w =
     (if item_id = 9 then (Inl (OtherException ''unknown item''), w)
      else (Inr (if even item_id then 1 else 3), w))"

definition example_hybrid ::
  "(nat, nat, prediction, unit) predictor option \<Rightarrow> (nat, nat, real, unit) predictor option
     \<Rightarrow> real \<times> real \<Rightarrow> (nat, nat, unit) hybrid" where
  "example_hybrid cf cb ws = \<lparr>cf_model = cf, cb_model = cb, weights = ws, env = ()\<rparr>"

text \<open>
  A collaborator with state: it counts its calls in \<open>env\<close> and scores an item by the
  number of calls made before.
\<close>

definition counting_cb :: "(nat, nat, real, nat) predictor" where
  "counting_cb user_id item_id w = (Inr (real w), Suc w)"

section \<open>Properties of the embedding\<close>

subsection \<open>What a call leaves alone\<close>

text \<open>
  A call of a collaborator changes at most the component \<open>env\<close>; the attributes of the
  scorer are never assigned.
\<close>

lemma call_cf_frame: "snd (call_cf self u i) = self\<lparr>env := env (snd (call_cf self u i))\<rparr>"
  by (simp add: call_cf_def split: option.split prod.split sum.split)

lemma call_cb_frame: "snd (call_cb self u i) = self\<lparr>env := env (snd (call_cb self u i))\<rparr>"
  by (simp add: call_cb_def split: option.split prod.split sum.split)

lemma predict_frame: "snd (predict self u i) = self\<lparr>env := env (snd (predict self u i))\<rparr>"
proof -
  obtain r1 s1 where c1: "call_cf self u i = (r1, s1)" by (cases "call_cf self u i")
  obtain r2 s2 where c2: "call_cb s1 u i = (r2, s2)" by (cases "call_cb s1 u i")
  have f1: "s1 = self\<lparr>env := env s1\<rparr>" using call_cf_frame [of self u i] c1 by simp
  have f2: "s2 = s1\<lparr>env := env s2\<rparr>" using call_cb_frame [of s1 u i] c2 by simp
  have f3: "s2 = self\<lparr>env := env s2\<rparr>" by (subst f2, subst f1) simp
  show ?thesis using c1 c2 f1 f3
    by (cases r1; cases r2) (simp_all add: predict_def)
qed

lemma score_items_frame:
  "snd (score_items self u items acc) = self\<lparr>env := env (snd (score_items self u items acc))\<rparr>"
proof (induction items arbitrary: self acc)
  case Nil
  show ?case by simp
next
  case (Cons i items)
  obtain r s where p: "predict self u i = (r, s)" by (cases "predict self u i")
  have fs: "s = self\<lparr>env := env s\<rparr>" using predict_frame [of self u i] p by simp
  show ?case
  proof (cases r)
    case (Inl e)
    have "snd (score_items s u items acc) = s\<lparr>env := env (snd (score_items s u items acc))\<rparr>"
      by (rule Cons.IH)
    also have "\<dots> = self\<lparr>env := env (snd (score_items s u items acc))\<rparr>"
      by (subst fs) simp
    finally show ?thesis using p Inl by simp
  next
    case (Inr sc)
    let ?acc = "acc @ [(i, sc)]"
    have "snd (score_items s u items ?acc) = s\<lparr>env := env (snd (score_items s u items ?acc))\<rparr>"
      by (rule Cons.IH)
    also have "\<dots> = self\<lparr>env := env (snd (score_items s u items ?acc))\<rparr>"
      by (subst fs) simp
    finally show ?thesis using p Inr by simp
  qed
qed

lemma score_items_acc:
  "score_items self u items acc =
     (acc @ fst (score_items self u items []), snd (score_items self u items []))"
proof (induction items arbitrary: self acc)
  case Nil
  show ?case by simp
next
  case (Cons i items)
  obtain r s where p: "predict self u i = (r, s)" by (cases "predict self u i")
  show ?case
  proof (cases r)
    case (Inl e)
    then show ?thesis using p Cons.IH [of s acc] by simp
  next
    case (Inr sc)
    then show ?thesis using p Cons.IH [of s "acc @ [(i, sc)]"] Cons.IH [of s "[(i, sc)]"]
      by simp
  qed
qed

lemma score_items_append:
  "score_items self u (xs @ ys) acc =
     score_items (snd (score_items self u xs acc)) u ys (fst (score_items self u xs acc))"
proof (induction xs arbitrary: self acc)
  case Nil
  show ?case by simp
next
  case (Cons i xs)
  obtain r s where p: "predict self u i = (r, s)" by (cases "predict self u i")
  show ?case using p Cons.IH by (cases r) simp_all
qed

lemma score_items_subseq: "subseq (map fst (fst (score_items self u items []))) items"
proof (induction items arbitrary: self)
  case Nil
  show ?case by simp
next
  case (Cons i items)
  obtain r s where p: "predict self u i = (r, s)" by (cases "predict self u i")
  show ?case
  proof (cases r)
    case (Inl e)
    then show ?thesis using p Cons.IH [of s] by (simp add: list_emb_Cons)
  next
    case (Inr sc)
    have "score_items self u (i # items) [] =
        ([(i, sc)] @ fst (score_items s u items []), snd (score_items s u items []))"
      using p Inr score_items_acc [of s u items "[(i, sc)]"] by simp
    then show ?thesis using Cons.IH [of s] by simp
  qed
qed

lemma score_items_length: "length (fst (score_items self u items [])) \<le> length items"
  using subseq_same_length score_items_subseq [of self u items]
  by (metis length_map list_emb_length)

lemma mset_sorted_py: "mset (sorted_py key r xs) = mset xs"
  by (simp add: sorted_py_def)

lemma length_sorted_py: "length (sorted_py key r xs) = length xs"
  by (simp add: sorted_py_def)

lemma sorted_py_descending: "sorted_wrt (\<lambda>a b. key b \<le> key a) (sorted_py key True xs)"
proof -
  have "sorted_wrt (\<lambda>a b. key a \<le> key b) (sort_key key (rev xs))"
    using sorted_sort_key [of key "rev xs"] by (simp add: sorted_map)
  then show ?thesis by (simp add: sorted_py_def sorted_wrt_rev)
qed

lemma sorted_py_stable:
  "filter (\<lambda>y. key y = k) (sorted_py key r xs) = filter (\<lambda>y. key y = k) xs"
  by (simp add: sorted_py_def sort_key_stable rev_filter [symmetric])

lemma sorted_py_const: "sorted_py (\<lambda>x. c) r xs = xs"
  by (simp add: sorted_py_def sort_key_const)

lemma env_update_fields:
  "s = self\<lparr>env := w\<rparr> \<Longrightarrow>
     cf_model s = cf_model self \<and> cb_model s = cb_model self \<and> weights s = weights self"
  by simp

lemma env_update_absorb: "s = self\<lparr>env := w\<rparr> \<Longrightarrow> s\<lparr>env := w'\<rparr> = self\<lparr>env := w'\<rparr>"
  by simp

lemma predict_env_absorb:
  "predict self u i = (r, s) \<Longrightarrow> s\<lparr>env := w\<rparr> = self\<lparr>env := w\<rparr>"
proof -
  assume p: "predict self u i = (r, s)"
  have "s = self\<lparr>env := env s\<rparr>" using predict_frame [of self u i] p by simp
  then show ?thesis by (rule env_update_absorb)
qed

subsection \<open>The loop of \<^verbatim>\<open>recommend\<close>, step by step\<close>

lemma score_items_failure:
  "predict self u i = (Inl e, s) \<Longrightarrow> score_items self u (i # items) acc = score_items s u items acc"
  by simp

lemma score_items_success:
  "predict self u i = (Inr sc, s) \<Longrightarrow>
     score_items self u (i # items) [] =
       ((i, sc) # fst (score_items s u items []), snd (score_items s u items []))"
  using score_items_acc [of s u items "[(i, sc)]"] by simp

lemma score_items_all_fail:
  assumes "\<forall>w. \<forall>i\<in>set items. isl (fst (predict (self\<lparr>env := w\<rparr>) u i))"
  shows "fst (score_items self u items acc) = acc"
  using assms
proof (induction items arbitrary: self)
  case Nil
  show ?case by simp
next
  case (Cons j items)
  obtain r s where p: "predict self u j = (r, s)" by (cases "predict self u j")
  have "\<forall>i\<in>set (j # items). isl (fst (predict (self\<lparr>env := env self\<rparr>) u i))"
    using Cons.prems by blast
  then have "isl r" using p by simp
  then obtain e where r: "r = Inl e" by (cases r) simp_all
  have "\<forall>w. \<forall>i\<in>set items. isl (fst (predict (s\<lparr>env := w\<rparr>) u i))"
    using Cons.prems predict_env_absorb [OF p] by simp
  then have "fst (score_items s u items acc) = acc" by (rule Cons.IH)
  then show ?case using p r by simp
qed

lemma predict_unconfigured:
  "cf_model self = None \<Longrightarrow> cb_model self = None \<Longrightarrow> predict self u i = (Inr 0, self)"
  by (simp add: predict_def call_cf_def call_cb_def)

lemma score_items_unconfigured:
  "cf_model self = None \<Longrightarrow> cb_model self = None \<Longrightarrow>
     score_items self u items acc = (acc @ map (\<lambda>i. (i, 0)) items, self)"
  by (induction items arbitrary: acc) (simp_all add: predict_unconfigured)

subsection \<open>Slices, ranking and counting\<close>

lemma slice_to_nonneg: "0 \<le> n \<Longrightarrow> slice_to n xs = take (nat n) xs"
  by (simp add: slice_to_def)

lemma slice_to_neg: "n < 0 \<Longrightarrow> slice_to n xs = take (length xs - nat (- n)) xs"
proof -
  assume "n < 0"
  then have "nat (int (length xs) + n) = length xs - nat (- n)" by linarith
  with \<open>n < 0\<close> show ?thesis by (simp add: slice_to_def)
qed

lemma slice_to_prefix: "prefix (slice_to n xs) xs"
  by (simp add: slice_to_def take_is_prefix)

lemma sorted_py_all_equal:
  assumes "\<forall>x\<in>set xs. key x = c"
  shows "sorted_py key r xs = xs"
proof -
  have "filter (\<lambda>y. key y = c) (sorted_py key r xs) = filter (\<lambda>y. key y = c) xs"
    by (rule sorted_py_stable)
  moreover have "set (sorted_py key r xs) = set xs"
    using mset_sorted_py [of key r xs] by (metis set_mset_mset)
  ultimately show ?thesis using assms by (simp add: filter_id_conv)
qed

lemma count_list_take: "count_list (take n xs) x \<le> count_list xs x"
proof -
  have "count_list (take n xs @ drop n xs) x = count_list (take n xs) x + count_list (drop n xs) x"
    by (rule count_list_append)
  then show ?thesis by simp
qed

lemma count_list_prefix: "prefix xs ys \<Longrightarrow> count_list xs x \<le> count_list ys x"
  by (auto simp: prefix_def)

lemma count_list_sorted_py:
  "count_list (map f (sorted_py key r xs)) x = count_list (map f xs) x"
proof -
  have "mset (map f (sorted_py key r xs)) = mset (map f xs)"
    by (simp add: mset_sorted_py)
  then show ?thesis by (metis count_mset)
qed

lemma count_list_subseq: "subseq xs ys \<Longrightarrow> count_list xs x \<le> count_list ys x"
  by (induction rule: list_emb.induct) auto

lemma score_items_count:
  assumes "\<forall>w. \<exists>sc s. predict (self\<lparr>env := w\<rparr>) u i = (Inr sc, s)"
  shows "count_list (map fst (fst (score_items self u items []))) i = count_list items i"
  using assms
proof (induction items arbitrary: self)
  case Nil
  show ?case by simp
next
  case (Cons j items)
  obtain r s where p: "predict self u j = (r, s)" by (cases "predict self u j")
  have "\<forall>w. \<exists>sc s'. predict (s\<lparr>env := w\<rparr>) u i = (Inr sc, s')"
    using Cons.prems predict_env_absorb [OF p] by simp
  then have ih: "count_list (map fst (fst (score_items s u items []))) i = count_list items i"
    by (rule Cons.IH)
  show ?case
  proof (cases r)
    case (Inr sc)
    then show ?thesis using p ih score_items_success [of self u j sc s items] by simp
  next
    case (Inl e)
    have "\<exists>sc s'. predict (self\<lparr>env := env self\<rparr>) u i = (Inr sc, s')"
      using Cons.prems by blast
    then have "j \<noteq> i" using p Inl by auto
    then show ?thesis using p ih Inl by simp
  qed
qed

subsection \<open>The result of \<^verbatim>\<open>recommend\<close>\<close>

lemma fst_recommend:
  "fst (recommend self u items n) =
     slice_to n (sorted_py snd True (fst (score_items self u items [])))"
  by (simp add: recommend_def split: prod.split)

lemma snd_recommend: "snd (recommend self u items n) = snd (score_items self u items [])"
  by (simp add: recommend_def split: prod.split)

lemma recommend_frame:
  "snd (recommend self u items top_n) = self\<lparr>env := env (snd (recommend self u items top_n))\<rparr>"
  using score_items_frame [of self u items "[]"] by (simp add: snd_recommend)

section \<open>The claims\<close>

subsection \<open>Claim C1\<close>

text \<open>
  C1. For every user and item, when both collaborators are configured and succeed,
  \<open>predict\<close> returns exactly \<open>w_cf * score_cf + w_cb * score_cb\<close>, where \<open>score_cf\<close> is the
  attribute \<open>est\<close> of what the collaborative-filtering model returned. A collaborator
  that is not configured contributes exactly 0: with only the collaborative-filtering
  model the result is \<open>w_cf * score_cf\<close>, with only the content-based model it is
  \<open>w_cb * score_cb\<close>, and with neither it is 0. The state returned is the one the last
  collaborator call left.
\<close>

theorem predict_weighted_sum:
  "(cf_model self = Some cf \<and> cb_model self = Some cb
      \<and> cf u i (env self) = (Inr p, w1) \<and> cb u i w1 = (Inr s, w2)
    \<longrightarrow> predict self u i
          = (Inr (fst (weights self) * est p + snd (weights self) * s), self\<lparr>env := w2\<rparr>))
   \<and> (cf_model self = Some cf \<and> cb_model self = None \<and> cf u i (env self) = (Inr p, w1)
    \<longrightarrow> predict self u i = (Inr (fst (weights self) * est p), self\<lparr>env := w1\<rparr>))
   \<and> (cf_model self = None \<and> cb_model self = Some cb \<and> cb u i (env self) = (Inr s, w2)
    \<longrightarrow> predict self u i = (Inr (snd (weights self) * s), self\<lparr>env := w2\<rparr>))
   \<and> (cf_model self = None \<and> cb_model self = None \<longrightarrow> predict self u i = (Inr 0, self))"
  by (simp add: predict_def call_cf_def call_cb_def)

theorem predict_weighted_sum_witness:
  "predict (example_hybrid (Some example_cf) (Some example_cb) (1 / 2, 1 / 4)) 0 2
     = (Inr (1 / 2 * (9 / 10) + 1 / 4 * 1),
        example_hybrid (Some example_cf) (Some example_cb) (1 / 2, 1 / 4))
   \<and> predict (example_hybrid (Some example_cf) None (1 / 2, 1 / 4)) 0 2
     = (Inr (1 / 2 * (9 / 10)), example_hybrid (Some example_cf) None (1 / 2, 1 / 4))
   \<and> predict (example_hybrid None (Some example_cb) (1 / 2, 1 / 4)) 0 5
     = (Inr (1 / 4 * 3), example_hybrid None (Some example_cb) (1 / 2, 1 / 4))
   \<and> predict (example_hybrid None None (1 / 2, 1 / 4)) 0 5
     = (Inr 0, example_hybrid None None (1 / 2, 1 / 4))"
proof -
  let ?both = "example_hybrid (Some example_cf) (Some example_cb) (1 / 2, 1 / 4)"
  let ?cf = "example_hybrid (Some example_cf) None (1 / 2, 1 / 4)"
  let ?cb = "example_hybrid None (Some example_cb) (1 / 2, 1 / 4)"
  let ?none = "example_hybrid None None (1 / 2, 1 / 4)"
  have "predict ?both 0 2
      = (Inr (fst (weights ?both) * est \<lparr>est = 9 / 10\<rparr> + snd (weights ?both) * 1),
         ?both\<lparr>env := ()\<rparr>)"
    using predict_weighted_sum [where self = ?both and cf = example_cf and cb = example_cb
        and u = 0 and i = 2 and p = "\<lparr>est = 9 / 10\<rparr>" and s = 1 and ?w1.0 = "()" and ?w2.0 = "()"]
    by (simp add: example_hybrid_def example_cf_def example_cb_def)
  moreover have "predict ?cf 0 2
      = (Inr (fst (weights ?cf) * est \<lparr>est = 9 / 10\<rparr>), ?cf\<lparr>env := ()\<rparr>)"
    using predict_weighted_sum [where self = ?cf and cf = example_cf
        and u = 0 and i = 2 and p = "\<lparr>est = 9 / 10\<rparr>" and ?w1.0 = "()"]
    by (simp add: example_hybrid_def example_cf_def)
  moreover have "predict ?cb 0 5 = (Inr (snd (weights ?cb) * 3), ?cb\<lparr>env := ()\<rparr>)"
    using predict_weighted_sum [where self = ?cb and cb = example_cb
        and u = 0 and i = 5 and s = 3 and ?w2.0 = "()"]
    by (simp add: example_hybrid_def example_cb_def)
  moreover have "predict ?none 0 5 = (Inr 0, ?none)"
    using predict_weighted_sum [where self = ?none and u = 0 and i = 5]
    by (simp add: example_hybrid_def)
  ultimately show ?thesis by (simp add: example_hybrid_def)
qed

subsection \<open>Claim C2\<close>

text \<open>
  C2. For every user, candidate list and \<open>top_n \<ge> 0\<close>, \<open>recommend\<close> returns the first
  \<open>top_n\<close> entries of the ranking of the surviving (item, score) pairs, the pairs
  collected by the loop. The ranking is a rearrangement of the surviving pairs (same
  pairs, same multiplicities) in which scores never increase, and so is the result. If
  at most \<open>top_n\<close> pairs survive, the result is the whole ranking: as many entries as
  survivors, nothing added.
\<close>

theorem recommend_sorted_truncated:
  assumes "0 \<le> top_n"
  shows "fst (recommend self u items top_n)
           = take (nat top_n) (sorted_py snd True (fst (score_items self u items [])))
    \<and> mset (sorted_py snd True (fst (score_items self u items [])))
           = mset (fst (score_items self u items []))
    \<and> sorted_wrt (\<lambda>a b. snd b \<le> snd a) (sorted_py snd True (fst (score_items self u items [])))
    \<and> sorted_wrt (\<lambda>a b. snd b \<le> snd a) (fst (recommend self u items top_n))
    \<and> (length (fst (score_items self u items [])) \<le> nat top_n \<longrightarrow>
         fst (recommend self u items top_n)
           = sorted_py snd True (fst (score_items self u items []))
         \<and> length (fst (recommend self u items top_n))
           = length (fst (score_items self u items [])))"
proof -
  let ?scored = "fst (score_items self u items [])"
  let ?ranked = "sorted_py snd True ?scored"
  have r: "fst (recommend self u items top_n) = take (nat top_n) ?ranked"
    using assms by (simp add: fst_recommend slice_to_nonneg)
  have d: "sorted_wrt (\<lambda>a b. snd b \<le> snd a) ?ranked" by (rule sorted_py_descending)
  have t: "sorted_wrt (\<lambda>a b. snd b \<le> snd a) (take (nat top_n) ?ranked)"
    using d by (rule sorted_wrt_take)
  show ?thesis using r d t by (simp add: mset_sorted_py length_sorted_py)
qed

theorem recommend_sorted_truncated_witness:
  "(0::int) \<le> 2
   \<and> fst (score_items (example_hybrid (Some example_cf) (Some example_cb) (1, 1)) 0 [4, 9, 2, 5, 7] [])
       = [(4, 14 / 10), (2, 19 / 10), (5, 34 / 10)]
   \<and> fst (recommend (example_hybrid (Some example_cf) (Some example_cb) (1, 1)) 0 [4, 9, 2, 5, 7] 2)
       = [(5, 34 / 10), (2, 19 / 10)]
   \<and> fst (recommend (example_hybrid (Some example_cf) (Some example_cb) (1, 1)) 0 [4, 9, 2, 5, 7] 10)
       = [(5, 34 / 10), (2, 19 / 10), (4, 14 / 10)]"
proof -
  let ?h = "example_hybrid (Some example_cf) (Some example_cb) (1, 1)"
  have s: "fst (score_items ?h 0 [4, 9, 2, 5, 7] []) = [(4, 14 / 10), (2, 19 / 10), (5, 34 / 10)]"
    by (simp add: example_hybrid_def example_cf_def example_cb_def predict_def call_cf_def
        call_cb_def)
  have "fst (recommend ?h 0 [4, 9, 2, 5, 7] 2) = [(5, 34 / 10), (2, 19 / 10)]"
    using recommend_sorted_truncated [of 2 ?h 0 "[4, 9, 2, 5, 7]"] s
    by (simp add: sorted_py_def)
  moreover have "fst (recommend ?h 0 [4, 9, 2, 5, 7] 10)
      = [(5, 34 / 10), (2, 19 / 10), (4, 14 / 10)]"
    using recommend_sorted_truncated [of 10 ?h 0 "[4, 9, 2, 5, 7]"] s
    by (simp add: sorted_py_def)
  ultimately show ?thesis using s by simp
qed

subsection \<open>Claim C3\<close>

text \<open>
  C3. A candidate whose scoring raises is dropped and the loop goes on with the
  candidates after it, from the state the failed call left: at the head of the list,
  \<open>recommend\<close> returns what it returns for the remaining candidates; anywhere in the
  list, the scored pairs are those of the candidates before it followed by those of the
  candidates after it. If the scoring of every candidate raises, whatever the state of
  the collaborators, the result is the empty list. The witness is the case of the
  specification: item 7 raises, items 2 and 4 score 0.9 and 0.4, and \<open>recommend\<close> on
  \<open>[7, 2, 4]\<close> with \<open>top_n = 3\<close> returns \<open>[(2, 0.9), (4, 0.4)]\<close>.
\<close>

theorem recommend_drops_failures:
  "(predict self u i = (Inl e, s)
      \<longrightarrow> recommend self u (i # items) top_n = recommend s u items top_n)
   \<and> (score_items self u xs [] = (sx, s1) \<and> predict s1 u i = (Inl e, s2)
      \<longrightarrow> score_items self u (xs @ i # ys) []
            = (sx @ fst (score_items s2 u ys []), snd (score_items s2 u ys [])))
   \<and> ((\<forall>w. \<forall>j\<in>set items. isl (fst (predict (self\<lparr>env := w\<rparr>) u j)))
      \<longrightarrow> fst (recommend self u items top_n) = [])"
proof (intro conjI impI)
  assume "predict self u i = (Inl e, s)"
  then show "recommend self u (i # items) top_n = recommend s u items top_n"
    by (simp add: recommend_def)
next
  assume h: "score_items self u xs [] = (sx, s1) \<and> predict s1 u i = (Inl e, s2)"
  have "score_items self u (xs @ i # ys) [] = score_items s1 u (i # ys) sx"
    using h score_items_append [of self u xs "i # ys" "[]"] by simp
  also have "\<dots> = score_items s2 u ys sx" using h by simp
  also have "\<dots> = (sx @ fst (score_items s2 u ys []), snd (score_items s2 u ys []))"
    by (rule score_items_acc)
  finally show "score_items self u (xs @ i # ys) []
      = (sx @ fst (score_items s2 u ys []), snd (score_items s2 u ys []))" .
next
  assume "\<forall>w. \<forall>j\<in>set items. isl (fst (predict (self\<lparr>env := w\<rparr>) u j))"
  then have "fst (score_items self u items []) = []" by (rule score_items_all_fail)
  then show "fst (recommend self u items top_n) = []"
    by (simp add: fst_recommend sorted_py_def slice_to_def)
qed

theorem recommend_drops_failures_witness:
  "predict (example_hybrid (Some example_cf) None (1, 1)) 0 7
     = (Inl PredictionError, example_hybrid (Some example_cf) None (1, 1))
   \<and> recommend (example_hybrid (Some example_cf) None (1, 1)) 0 [7, 2, 4] 3
     = ([(2, 9 / 10), (4, 4 / 10)], example_hybrid (Some example_cf) None (1, 1))
   \<and> score_items (example_hybrid (Some example_cf) None (1, 1)) 0 [2, 7, 4] []
     = ([(2, 9 / 10), (4, 4 / 10)], example_hybrid (Some example_cf) None (1, 1))
   \<and> fst (recommend (example_hybrid (Some example_cf) None (1, 1)) 0 [7, 7] 3) = []"
proof -
  let ?h = "example_hybrid (Some example_cf) None (1, 1)"
  have p7: "predict ?h 0 7 = (Inl PredictionError, ?h)"
    by (simp add: example_hybrid_def example_cf_def predict_def call_cf_def)
  have r24: "recommend ?h 0 [2, 4] 3 = ([(2, 9 / 10), (4, 4 / 10)], ?h)"
    by (simp add: example_hybrid_def example_cf_def recommend_def predict_def call_cf_def
        call_cb_def sorted_py_def slice_to_def)
  have "recommend ?h 0 [7, 2, 4] 3 = recommend ?h 0 [2, 4] 3"
    using recommend_drops_failures [where self = ?h and u = 0 and i = 7 and s = ?h
        and e = PredictionError and items = "[2, 4]" and top_n = 3] p7
    by simp
  then have a: "recommend ?h 0 [7, 2, 4] 3 = ([(2, 9 / 10), (4, 4 / 10)], ?h)"
    using r24 by simp
  have s2: "score_items ?h 0 [2] [] = ([(2, 9 / 10)], ?h)"
    by (simp add: example_hybrid_def example_cf_def predict_def call_cf_def call_cb_def)
  have s4: "score_items ?h 0 [4] [] = ([(4, 4 / 10)], ?h)"
    by (simp add: example_hybrid_def example_cf_def predict_def call_cf_def call_cb_def)
  have b: "score_items ?h 0 [2, 7, 4] [] = ([(2, 9 / 10), (4, 4 / 10)], ?h)"
    using recommend_drops_failures [where self = ?h and u = 0 and i = 7 and ?s1.0 = ?h
        and ?s2.0 = ?h and e = PredictionError and xs = "[2]" and sx = "[(2, 9 / 10)]"
        and ys = "[4]"] p7 s2 s4
    by simp
  have "\<forall>w. \<forall>j\<in>set [7, 7]. isl (fst (predict (?h\<lparr>env := w\<rparr>) 0 j))"
    by (simp add: example_hybrid_def example_cf_def predict_def call_cf_def)
  then have c: "fst (recommend ?h 0 [7, 7] 3) = []"
    using recommend_drops_failures [where self = ?h and u = 0 and items = "[7, 7]"
        and top_n = 3]
    by blast
  show ?thesis using p7 a b c by simp
qed

subsection \<open>Claim C4\<close>

text \<open>
  C4. The sort in \<open>recommend\<close> is stable: for every score \<open>k\<close>, the entries of the result
  with score \<open>k\<close> are an initial segment of the scored pairs with score \<open>k\<close>, taken in
  the order in which the loop scored them; and the loop scores the candidates in the
  order of the candidate list (the items of the scored pairs are a subsequence of the
  candidates). So two surviving candidates of equal score appear in the result in their
  input order.
\<close>

theorem recommend_stable:
  "prefix (filter (\<lambda>p. snd p = k) (fst (recommend self u items top_n)))
          (filter (\<lambda>p. snd p = k) (fst (score_items self u items [])))
   \<and> subseq (map fst (fst (score_items self u items []))) items"
proof -
  let ?scored = "fst (score_items self u items [])"
  have "prefix (slice_to top_n (sorted_py snd True ?scored)) (sorted_py snd True ?scored)"
    by (rule slice_to_prefix)
  then have "prefix (filter (\<lambda>p. snd p = k) (slice_to top_n (sorted_py snd True ?scored)))
      (filter (\<lambda>p. snd p = k) (sorted_py snd True ?scored))"
    by (rule filter_mono_prefix)
  then show ?thesis by (simp add: fst_recommend sorted_py_stable score_items_subseq)
qed

theorem recommend_stable_witness:
  "fst (recommend (example_hybrid (Some example_cf) None (1, 1)) 0 [4, 2, 5, 6] 3)
     = [(2, 9 / 10), (4, 4 / 10), (5, 4 / 10)]
   \<and> prefix [(4, 4 / 10), (5, 4 / 10)] [(4, 4 / 10), (5, 4 / 10), (6, 4 / 10)]"
proof -
  let ?h = "example_hybrid (Some example_cf) None (1, 1)"
  have s: "fst (score_items ?h 0 [4, 2, 5, 6] [])
      = [(4, 4 / 10), (2, 9 / 10), (5, 4 / 10), (6, 4 / 10)]"
    by (simp add: example_hybrid_def example_cf_def predict_def call_cf_def call_cb_def)
  have r: "fst (recommend ?h 0 [4, 2, 5, 6] 3) = [(2, 9 / 10), (4, 4 / 10), (5, 4 / 10)]"
    using s by (simp add: fst_recommend slice_to_def sorted_py_def)
  have "prefix (filter (\<lambda>p. snd p = 4 / 10) (fst (recommend ?h 0 [4, 2, 5, 6] 3)))
      (filter (\<lambda>p. snd p = 4 / 10) (fst (score_items ?h 0 [4, 2, 5, 6] [])))"
    using recommend_stable [of "4 / 10" ?h 0 "[4, 2, 5, 6]" 3] by blast
  then show ?thesis using r s by simp
qed

subsection \<open>Claim C5\<close>

text \<open>
  C5. A failure of a configured collaborator during \<open>predict\<close> is the result of
  \<open>predict\<close>: the error of the collaborative-filtering model is returned as it is (and
  the content-based model is not called), and so is the error of the content-based
  model when the first step went through. Nothing is caught: when \<open>predict\<close> returns a
  score, every configured collaborator returned one.
\<close>

theorem predict_propagates:
  "(cf_model self = Some cf \<and> cf u i (env self) = (Inl e, w1)
    \<longrightarrow> predict self u i = (Inl e, self\<lparr>env := w1\<rparr>))
   \<and> (call_cf self u i = (Inr a, s1) \<and> cb_model self = Some cb
        \<and> cb u i (env s1) = (Inl e, w2)
    \<longrightarrow> predict self u i = (Inl e, s1\<lparr>env := w2\<rparr>))
   \<and> (fst (predict self u i) = Inr x \<and> cf_model self = Some cf
    \<longrightarrow> (\<exists>p w. cf u i (env self) = (Inr p, w)))
   \<and> (fst (predict self u i) = Inr x \<and> cb_model self = Some cb
    \<longrightarrow> (\<exists>s w. cb u i (env (snd (call_cf self u i))) = (Inr s, w)))"
proof (intro conjI impI)
  assume "cf_model self = Some cf \<and> cf u i (env self) = (Inl e, w1)"
  then show "predict self u i = (Inl e, self\<lparr>env := w1\<rparr>)"
    by (simp add: predict_def call_cf_def)
next
  assume h: "call_cf self u i = (Inr a, s1) \<and> cb_model self = Some cb
        \<and> cb u i (env s1) = (Inl e, w2)"
  have f1: "s1 = self\<lparr>env := env s1\<rparr>" using call_cf_frame [of self u i] h by simp
  have "cb_model s1 = cb_model self" using env_update_fields [OF f1] by simp
  with h show "predict self u i = (Inl e, s1\<lparr>env := w2\<rparr>)"
    by (simp add: predict_def call_cb_def)
next
  assume h: "fst (predict self u i) = Inr x \<and> cf_model self = Some cf"
  obtain r w where c: "cf u i (env self) = (r, w)" by (cases "cf u i (env self)")
  show "\<exists>p w. cf u i (env self) = (Inr p, w)"
  proof (cases r)
    case (Inl e)
    with h c have "fst (predict self u i) = Inl e" by (simp add: predict_def call_cf_def)
    with h show ?thesis by simp
  next
    case (Inr p)
    with c show ?thesis by blast
  qed
next
  assume h: "fst (predict self u i) = Inr x \<and> cb_model self = Some cb"
  obtain r1 s1 where c1: "call_cf self u i = (r1, s1)" by (cases "call_cf self u i")
  have f1: "s1 = self\<lparr>env := env s1\<rparr>" using call_cf_frame [of self u i] c1 by simp
  have "cb_model s1 = cb_model self" using env_update_fields [OF f1] by simp
  then have m: "cb_model s1 = Some cb" using h by simp
  obtain r w where c: "cb u i (env s1) = (r, w)" by (cases "cb u i (env s1)")
  show "\<exists>s w. cb u i (env (snd (call_cf self u i))) = (Inr s, w)"
  proof (cases r)
    case (Inl e)
    with h c c1 m have "\<exists>e'. fst (predict self u i) = Inl e'"
      by (cases r1) (simp_all add: predict_def call_cb_def)
    with h show ?thesis by auto
  next
    case (Inr s)
    with c c1 show ?thesis by simp
  qed
qed

theorem predict_propagates_witness:
  "predict (example_hybrid (Some example_cf) (Some example_cb) (1, 1)) 0 7
     = (Inl PredictionError, example_hybrid (Some example_cf) (Some example_cb) (1, 1))
   \<and> predict (example_hybrid (Some example_cf) (Some example_cb) (1, 1)) 0 9
     = (Inl (OtherException ''unknown item''),
        example_hybrid (Some example_cf) (Some example_cb) (1, 1))
   \<and> fst (predict (example_hybrid (Some example_cf) (Some example_cb) (1, 1)) 0 2)
     = Inr (19 / 10)
   \<and> (\<exists>p w. example_cf 0 2 () = (Inr p, w))
   \<and> (\<exists>s w. example_cb 0 2 () = (Inr s, w))"
proof -
  let ?h = "example_hybrid (Some example_cf) (Some example_cb) (1, 1)"
  have a: "predict ?h 0 7 = (Inl PredictionError, ?h\<lparr>env := ()\<rparr>)"
    using predict_propagates [where self = ?h and cf = example_cf and u = 0 and i = 7
        and e = PredictionError and ?w1.0 = "()"]
    by (simp add: example_hybrid_def example_cf_def)
  have c9: "call_cf ?h 0 9 = (Inr (4 / 10), ?h)"
    by (simp add: call_cf_def example_hybrid_def example_cf_def)
  have b: "predict ?h 0 9 = (Inl (OtherException ''unknown item''), ?h\<lparr>env := ()\<rparr>)"
    using predict_propagates [where self = ?h and cb = example_cb and u = 0 and i = 9
        and e = "OtherException ''unknown item''" and a = "4 / 10" and ?s1.0 = ?h
        and ?w2.0 = "()"] c9
    by (simp add: example_hybrid_def example_cb_def)
  have p2: "fst (predict ?h 0 2) = Inr (19 / 10)"
    by (simp add: predict_def call_cf_def call_cb_def example_hybrid_def example_cf_def
        example_cb_def)
  have c: "\<exists>p w. example_cf 0 2 (env ?h) = (Inr p, w)"
    using predict_propagates [where self = ?h and cf = example_cf and u = 0 and i = 2
        and x = "19 / 10"] p2
    by (simp add: example_hybrid_def)
  have c2: "snd (call_cf ?h 0 2) = ?h"
    by (simp add: call_cf_def example_hybrid_def example_cf_def)
  have d: "\<exists>s w. example_cb 0 2 (env (snd (call_cf ?h 0 2))) = (Inr s, w)"
    using predict_propagates [where self = ?h and cb = example_cb and u = 0 and i = 2
        and x = "19 / 10"] p2
    by (simp add: example_hybrid_def)
  show ?thesis using a b p2 c d by simp
qed

subsection \<open>Claim C6\<close>

text \<open>
  C6. With neither collaborator configured and \<open>top_n \<ge> 0\<close>, \<open>recommend\<close> returns the
  first \<open>top_n\<close> candidates in their input order, each paired with the score 0, and
  leaves the state as it was. The witness is the case of the specification:
  the candidates \<open>[5, 3, 9, 1]\<close> with \<open>top_n = 3\<close> give \<open>[(5, 0), (3, 0), (9, 0)]\<close>.
\<close>

theorem recommend_unconfigured:
  assumes "cf_model self = None" and "cb_model self = None" and "0 \<le> top_n"
  shows "recommend self u items top_n = (map (\<lambda>i. (i, 0)) (take (nat top_n) items), self)"
proof -
  have s: "score_items self u items [] = (map (\<lambda>i. (i, 0)) items, self)"
    using assms score_items_unconfigured [of self u items "[]"] by simp
  have "sorted_py snd True (map (\<lambda>i. (i, 0::real)) items) = map (\<lambda>i. (i, 0)) items"
    by (rule sorted_py_all_equal [where c = 0]) auto
  then show ?thesis using s assms by (simp add: recommend_def slice_to_nonneg take_map)
qed

theorem recommend_unconfigured_witness:
  "recommend (example_hybrid None None (1 / 2, 1 / 2)) 0 [5, 3, 9, 1] 3
     = ([(5, 0), (3, 0), (9, 0)], example_hybrid None None (1 / 2, 1 / 2))"
  using recommend_unconfigured [of "example_hybrid None None (1 / 2, 1 / 2)" 3 0 "[5, 3, 9, 1]"]
  by (simp add: example_hybrid_def)

subsection \<open>Claim C7\<close>

text \<open>
  C7. For every user, candidate list and \<open>top_n \<ge> 0\<close>, \<open>recommend\<close> returns at most
  \<open>top_n\<close> entries, and \<open>top_n = 0\<close> gives the empty list.
\<close>

theorem recommend_at_most_top_n:
  "(0 \<le> top_n \<longrightarrow> length (fst (recommend self u items top_n)) \<le> nat top_n)
   \<and> fst (recommend self u items 0) = []"
  by (simp add: fst_recommend slice_to_nonneg)

theorem recommend_at_most_top_n_witness:
  "(0::int) \<le> 2
   \<and> length (fst (recommend (example_hybrid (Some example_cf) None (1, 1)) 0 [4, 9, 2, 5, 7] 2)) \<le> 2
   \<and> fst (recommend (example_hybrid (Some example_cf) None (1, 1)) 0 [4, 9, 2, 5, 7] 0) = []"
  using recommend_at_most_top_n [of 2 "example_hybrid (Some example_cf) None (1, 1)" 0 "[4, 9, 2, 5, 7]"]
  by simp

subsection \<open>Claim C8\<close>

text \<open>
  C8. Neither \<open>predict\<close> nor \<open>recommend\<close> changes the weights or the two collaborator
  references, whatever the collaborators do to their own state. Consequently, when the
  state of the collaborators after a call of \<open>recommend\<close> is what it was before, a
  second call with the same arguments returns the same list and the same state.
\<close>

theorem recommend_no_mutation:
  "cf_model (snd (predict self u i)) = cf_model self
   \<and> cb_model (snd (predict self u i)) = cb_model self
   \<and> weights (snd (predict self u i)) = weights self
   \<and> cf_model (snd (recommend self u items top_n)) = cf_model self
   \<and> cb_model (snd (recommend self u items top_n)) = cb_model self
   \<and> weights (snd (recommend self u items top_n)) = weights self
   \<and> (env (snd (recommend self u items top_n)) = env self
      \<longrightarrow> recommend (snd (recommend self u items top_n)) u items top_n
            = recommend self u items top_n)"
proof -
  have p: "cf_model (snd (predict self u i)) = cf_model self
      \<and> cb_model (snd (predict self u i)) = cb_model self
      \<and> weights (snd (predict self u i)) = weights self"
    using predict_frame [of self u i] by (rule env_update_fields)
  have r: "cf_model (snd (recommend self u items top_n)) = cf_model self
      \<and> cb_model (snd (recommend self u items top_n)) = cb_model self
      \<and> weights (snd (recommend self u items top_n)) = weights self"
    using recommend_frame [of self u items top_n] by (rule env_update_fields)
  have e: "env (snd (recommend self u items top_n)) = env self
      \<longrightarrow> recommend (snd (recommend self u items top_n)) u items top_n
            = recommend self u items top_n"
  proof
    assume "env (snd (recommend self u items top_n)) = env self"
    then have "snd (recommend self u items top_n) = self"
      using recommend_frame [of self u items top_n] by simp
    then show "recommend (snd (recommend self u items top_n)) u items top_n
        = recommend self u items top_n"
      by simp
  qed
  show ?thesis using p r e by simp
qed

theorem recommend_no_mutation_witness:
  "recommend (snd (recommend (example_hybrid (Some example_cf) (Some example_cb) (1, 1)) 0 [4, 9, 2] 2))
      0 [4, 9, 2] 2
     = recommend (example_hybrid (Some example_cf) (Some example_cb) (1, 1)) 0 [4, 9, 2] 2
   \<and> weights (snd (recommend \<lparr>cf_model = None, cb_model = Some counting_cb,
        weights = (1, 1), env = 0\<rparr> (0::nat) [4, 9, 2::nat] 2)) = (1, 1)
   \<and> env (snd (recommend \<lparr>cf_model = None, cb_model = Some counting_cb,
        weights = (1, 1), env = 0\<rparr> (0::nat) [4, 9, 2::nat] 2)) = 3"
proof -
  let ?h = "example_hybrid (Some example_cf) (Some example_cb) (1, 1)"
  let ?c = "\<lparr>cf_model = None, cb_model = Some counting_cb, weights = (1, 1), env = 0::nat\<rparr>
      :: (nat, nat, nat) hybrid"
  have "recommend (snd (recommend ?h 0 [4, 9, 2] 2)) 0 [4, 9, 2] 2 = recommend ?h 0 [4, 9, 2] 2"
    using recommend_no_mutation [of ?h 0 0 "[4, 9, 2]" 2] by simp
  moreover have "weights (snd (recommend ?c 0 [4, 9, 2] 2)) = (1, 1)"
    using recommend_no_mutation [of ?c 0 0 "[4, 9, 2]" 2] by simp
  moreover have "env (snd (recommend ?c 0 [4, 9, 2] 2)) = 3"
    by (simp add: recommend_def predict_def call_cf_def call_cb_def counting_cb_def)
  ultimately show ?thesis by simp
qed

subsection \<open>Claim C9\<close>

text \<open>
  C9. \<open>recommend\<close> does not remove duplicates. If the scoring of an item succeeds in
  every state of the collaborators, the item occurs among the scored pairs as often as
  among the candidates. In general it occurs in the result at most as often as among the
  scored pairs, and there at most as often as among the candidates; when \<open>top_n\<close> is at
  least the number of candidates, it occurs in the result exactly as often as among the
  scored pairs.
\<close>

theorem recommend_keeps_duplicates:
  "((\<forall>w. \<exists>sc s. predict (self\<lparr>env := w\<rparr>) u i = (Inr sc, s))
      \<longrightarrow> count_list (map fst (fst (score_items self u items []))) i = count_list items i)
   \<and> count_list (map fst (fst (recommend self u items top_n))) i
        \<le> count_list (map fst (fst (score_items self u items []))) i
   \<and> count_list (map fst (fst (score_items self u items []))) i \<le> count_list items i
   \<and> (int (length items) \<le> top_n
      \<longrightarrow> count_list (map fst (fst (recommend self u items top_n))) i
            = count_list (map fst (fst (score_items self u items []))) i)"
proof (intro conjI impI)
  assume "\<forall>w. \<exists>sc s. predict (self\<lparr>env := w\<rparr>) u i = (Inr sc, s)"
  then show "count_list (map fst (fst (score_items self u items []))) i = count_list items i"
    by (rule score_items_count)
next
  let ?ranked = "sorted_py snd True (fst (score_items self u items []))"
  have "prefix (map fst (slice_to top_n ?ranked)) (map fst ?ranked)"
    using slice_to_prefix [of top_n ?ranked] by (rule map_mono_prefix)
  then have "count_list (map fst (slice_to top_n ?ranked)) i \<le> count_list (map fst ?ranked) i"
    by (rule count_list_prefix)
  then show "count_list (map fst (fst (recommend self u items top_n))) i
      \<le> count_list (map fst (fst (score_items self u items []))) i"
    by (simp add: fst_recommend count_list_sorted_py)
next
  show "count_list (map fst (fst (score_items self u items []))) i \<le> count_list items i"
    using score_items_subseq [of self u items] by (rule count_list_subseq)
next
  let ?ranked = "sorted_py snd True (fst (score_items self u items []))"
  assume n: "int (length items) \<le> top_n"
  have "length ?ranked \<le> length items"
    using score_items_length [of self u items] by (simp add: length_sorted_py)
  then have "slice_to top_n ?ranked = ?ranked" using n by (simp add: slice_to_def)
  then show "count_list (map fst (fst (recommend self u items top_n))) i
      = count_list (map fst (fst (score_items self u items []))) i"
    by (simp add: fst_recommend count_list_sorted_py)
qed

theorem recommend_keeps_duplicates_witness:
  "fst (score_items (example_hybrid (Some example_cf) None (1, 1)) 0 [4, 2, 4, 7, 4] [])
     = [(4, 4 / 10), (2, 9 / 10), (4, 4 / 10), (4, 4 / 10)]
   \<and> count_list (map fst (fst (score_items (example_hybrid (Some example_cf) None (1, 1)) 0
        [4, 2, 4, 7, 4] []))) 4 = 3
   \<and> count_list (map fst (fst (recommend (example_hybrid (Some example_cf) None (1, 1)) 0
        [4, 2, 4, 7, 4] 5))) 4 = 3
   \<and> fst (recommend (example_hybrid (Some example_cf) None (1, 1)) 0 [4, 2, 4, 7, 4] 3)
     = [(2, 9 / 10), (4, 4 / 10), (4, 4 / 10)]"
proof -
  let ?h = "example_hybrid (Some example_cf) None (1, 1)"
  have "\<forall>w. predict (?h\<lparr>env := w\<rparr>) 0 4 = (Inr (4 / 10), ?h)"
    by (simp add: example_hybrid_def example_cf_def predict_def call_cf_def call_cb_def)
  then have ok: "\<forall>w. \<exists>sc s. predict (?h\<lparr>env := w\<rparr>) 0 4 = (Inr sc, s)"
    by blast
  have s: "fst (score_items ?h 0 [4, 2, 4, 7, 4] [])
      = [(4, 4 / 10), (2, 9 / 10), (4, 4 / 10), (4, 4 / 10)]"
    by (simp add: example_hybrid_def example_cf_def predict_def call_cf_def call_cb_def)
  have c: "count_list (map fst (fst (score_items ?h 0 [4, 2, 4, 7, 4] []))) 4
      = count_list [4, 2, 4, 7, 4 :: nat] 4"
    using recommend_keeps_duplicates [of ?h 0 4 "[4, 2, 4, 7, 4]" 5] ok by blast
  have r: "count_list (map fst (fst (recommend ?h 0 [4, 2, 4, 7, 4] 5))) 4
      = count_list (map fst (fst (score_items ?h 0 [4, 2, 4, 7, 4] []))) 4"
    using recommend_keeps_duplicates [of ?h 0 4 "[4, 2, 4, 7, 4]" 5] by simp
  have t: "fst (recommend ?h 0 [4, 2, 4, 7, 4] 3) = [(2, 9 / 10), (4, 4 / 10), (4, 4 / 10)]"
    using s by (simp add: fst_recommend sorted_py_def slice_to_def)
  show ?thesis using s c r t by simp
qed

subsection \<open>Claim C10\<close>

text \<open>
  C10. For a negative \<open>top_n\<close> the result is the ranking of the surviving pairs without
  its last \<open>|top_n|\<close> entries. It is not empty when more than \<open>|top_n|\<close> pairs survive, and
  it differs from the result for \<open>|top_n|\<close> whenever some pair survives and the number of
  survivors is not \<open>2 * |top_n|\<close>.
\<close>

theorem recommend_negative_top_n:
  assumes "top_n < 0"
  shows "fst (recommend self u items top_n)
           = take (length (fst (score_items self u items [])) - nat (- top_n))
               (sorted_py snd True (fst (score_items self u items [])))
    \<and> length (fst (recommend self u items top_n))
           = length (fst (score_items self u items [])) - nat (- top_n)
    \<and> (nat (- top_n) < length (fst (score_items self u items []))
         \<longrightarrow> fst (recommend self u items top_n) \<noteq> [])
    \<and> (fst (score_items self u items []) \<noteq> []
         \<and> length (fst (score_items self u items [])) \<noteq> 2 * nat (- top_n)
         \<longrightarrow> fst (recommend self u items top_n) \<noteq> fst (recommend self u items (- top_n)))"
proof -
  let ?scored = "fst (score_items self u items [])"
  let ?ranked = "sorted_py snd True ?scored"
  have a: "fst (recommend self u items top_n) = take (length ?scored - nat (- top_n)) ?ranked"
    using assms by (simp add: fst_recommend slice_to_neg length_sorted_py)
  have b: "length (fst (recommend self u items top_n)) = length ?scored - nat (- top_n)"
    using a by (simp add: length_sorted_py)
  have c: "length (fst (recommend self u items (- top_n))) = min (length ?scored) (nat (- top_n))"
    using assms by (simp add: fst_recommend slice_to_nonneg length_sorted_py)
  have d: "fst (recommend self u items top_n) \<noteq> []"
    if "nat (- top_n) < length ?scored"
  proof -
    have "0 < length (fst (recommend self u items top_n))" using b that by simp
    then show ?thesis by simp
  qed
  have e: "fst (recommend self u items top_n) \<noteq> fst (recommend self u items (- top_n))"
    if "?scored \<noteq> []" and "length ?scored \<noteq> 2 * nat (- top_n)"
  proof -
    have "0 < length ?scored" using that by simp
    then have "length ?scored - nat (- top_n) \<noteq> min (length ?scored) (nat (- top_n))"
      using that assms by linarith
    then have "length (fst (recommend self u items top_n))
        \<noteq> length (fst (recommend self u items (- top_n)))"
      using b c by simp
    then show ?thesis by metis
  qed
  show ?thesis using a b d e by blast
qed

theorem recommend_negative_top_n_witness:
  "(- 1 :: int) < 0
   \<and> fst (recommend (example_hybrid (Some example_cf) None (1, 1)) 0 [4, 2, 5] (- 1))
       = [(2, 9 / 10), (4, 4 / 10)]
   \<and> fst (recommend (example_hybrid (Some example_cf) None (1, 1)) 0 [4, 2, 5] 1)
       = [(2, 9 / 10)]"
proof -
  let ?h = "example_hybrid (Some example_cf) None (1, 1)"
  have s: "fst (score_items ?h 0 [4, 2, 5] []) = [(4, 4 / 10), (2, 9 / 10), (5, 4 / 10)]"
    by (simp add: example_hybrid_def example_cf_def predict_def call_cf_def call_cb_def)
  have "fst (recommend ?h 0 [4, 2, 5] (- 1)) = [(2, 9 / 10), (4, 4 / 10)]"
    using recommend_negative_top_n [of "- 1" ?h 0 "[4, 2, 5]"] s by (simp add: sorted_py_def)
  moreover have "fst (recommend ?h 0 [4, 2, 5] 1) = [(2, 9 / 10)]"
    using s by (simp add: fst_recommend slice_to_def sorted_py_def)
  ultimately show ?thesis by simp
qed

end
